theory Spec2Isabelle
  imports Main "HOL-Library.Multiset" "HOL-Library.AList" "HOL-Library.Char_ord"
    "HOL-Library.List_Lexorder"
begin

section \<open>Time, errors and the outside world\<close>

text \<open>
  A \<open>time.Time\<close> is an instant, counted in nanoseconds from Go's zero time; a
  \<open>time.Duration\<close> is a signed 64-bit count of nanoseconds. \<open>Time.Sub\<close> saturates
  at the ends of the 64-bit range, which matters here: a node that has never been
  restarted holds the zero time, and \<open>time.Now().Sub\<close> of it is the maximal duration.
\<close>

type_synonym time = int
type_synonym duration = int

definition maxDuration :: duration where
  "maxDuration = 9223372036854775807"

definition minDuration :: duration where
  "minDuration = - 9223372036854775808"

definition time_Sub :: "time \<Rightarrow> time \<Rightarrow> duration" where
  "time_Sub t u =
     (let d = t - u
      in if d < minDuration then minDuration
         else if maxDuration < d then maxDuration
         else d)"

text \<open>
  One constructor for each \<open>fmt.Errorf\<close> of the package, carrying its arguments, and
  \<open>External\<close> for an error value handed back by a callee outside the package (the flag
  serialiser, \<open>os/exec\<close>, \<open>syscall\<close>, the agent client, gRPC, HTTP).
\<close>

datatype error =
    AlreadyRunning string
      \<comment> \<open>\<open>"%s is already running or requested to restart"\<close> (local node)\<close>
  | AlreadyTerminatedOrRequested string
      \<comment> \<open>\<open>"%s is already terminated or requested to terminate"\<close> (local node)\<close>
  | RestartedSameNode duration duration
      \<comment> \<open>\<open>"Somebody restarted the same node (only %v ago)! Retry in %v!"\<close>\<close>
  | TerminatedNode duration duration
      \<comment> \<open>\<open>"Somebody terminated the node (only %v ago)! Retry in %v!"\<close>\<close>
  | TerminatedSameNode duration duration
      \<comment> \<open>\<open>"Somebody terminated the same node (only %v ago)! Retry in %v!"\<close>\<close>
  | RestartedNode duration duration
      \<comment> \<open>\<open>"Somebody restarted the node (only %v ago)! Retry in %v!"\<close>\<close>
  | AlreadyActive string
      \<comment> \<open>\<open>"%s is already active"\<close> (remote node)\<close>
  | AlreadyTerminated string
      \<comment> \<open>\<open>"%s is already terminated"\<close> (remote node)\<close>
  | DoesNotExist string
      \<comment> \<open>\<open>"%s does not exist"\<close>\<close>
  | AgentEndpointsSize nat nat
      \<comment> \<open>\<open>"agent endpoints must be the same size of flags (%d != %d)"\<close>\<close>
  | NoAgentEndpoints
      \<comment> \<open>\<open>"no agent endpoints found"\<close>\<close>
  | NotImplemented int
      \<comment> \<open>\<open>"NodeType %v is not implemented"\<close>\<close>
  | TimedOut
      \<comment> \<open>\<open>"timed out"\<close>\<close>
  | External string

text \<open>The names the specification gives to these errors.\<close>

fun is_TooSoon :: "error \<Rightarrow> bool" where
  "is_TooSoon (RestartedSameNode e d) = True"
| "is_TooSoon (TerminatedNode e d) = True"
| "is_TooSoon (TerminatedSameNode e d) = True"
| "is_TooSoon (RestartedNode e d) = True"
| "is_TooSoon _ = False"

fun is_AlreadyActive :: "error \<Rightarrow> bool" where
  "is_AlreadyActive (AlreadyRunning n) = True"
| "is_AlreadyActive (AlreadyActive n) = True"
| "is_AlreadyActive _ = False"

fun is_NotActive :: "error \<Rightarrow> bool" where
  "is_NotActive (AlreadyTerminatedOrRequested n) = True"
| "is_NotActive (AlreadyTerminated n) = True"
| "is_NotActive _ = False"

text \<open>
  The local node reports a \<open>Clean\<close> on a running node with the same message as a
  duplicate \<open>Start\<close>; the specification calls that error StillActive.
\<close>

fun is_StillActive :: "error \<Rightarrow> bool" where
  "is_StillActive (AlreadyRunning n) = True"
| "is_StillActive _ = False"

text \<open>
  How a call ends. It returns; or it waits for ever, for a mutex that is never
  unlocked or for a value that is never sent; or it panics, and the panic, which
  nothing recovers, ends the program.
\<close>

datatype 'a outcome = Returns 'a | Blocks | Panics

text \<open>
  A lifecycle operation reads the clock and the environment and calls the flag
  serialiser, the operating system or the agent. A \<open>world\<close> holds what those calls
  answer during one operation: \<open>now1\<close>, \<open>now2\<close>, \<open>now3\<close> are the successive readings of
  \<open>time.Now()\<close> in program order.
\<close>

record world =
  now1 :: time
  now2 :: time
  now3 :: time
  env_SHELL :: string
  Flags_String :: "error + string"
  Flags_StringSlice :: "error + string list"
  cmd_Start :: "error + int"
  syscall_Kill :: "error option"
  os_RemoveAll :: "error option"
  Agent_Start :: "error option"
  Agent_Restart :: "error option"
  Agent_Stop :: "error option"
  Agent_Cleanup :: "error option"

text \<open>
  The fields of \<open>Flags\<close> that the package reads or writes. \<open>ListenClientURLs\<close> is a Go
  map used as a set; the list holds its keys. In which order a \<open>range\<close> yields them is
  for the runtime to choose, anew each time.
\<close>

record Flags =
  Name :: string
  DataDir :: string
  InitialClusterState :: string
  ListenClientURLs :: "string list"
  ExperimentalgRPCAddr :: string

text \<open>A line put on a log channel, one constructor for each format string.\<close>

datatype line =
    StartLine string              \<comment> \<open>\<open>"Start %s\n"\<close>\<close>
  | RestartLine string            \<comment> \<open>\<open>"Restart %s\n"\<close>\<close>
  | TerminateLine string int      \<comment> \<open>\<open>"Terminate %s [PID: %d]\n"\<close>\<close>
  | CleanLine string string       \<comment> \<open>\<open>"Clean %s (%s)\n"\<close>\<close>
  | Msg string                    \<comment> \<open>a message passed to \<open>Write\<close>\<close>

text \<open>
  \<open>exec.Cmd\<close> as far as the node configures it: the argument vector, and whether
  standard output and error are wired to the node's \<open>Write\<close> or discarded.
\<close>

record Cmd =
  Args :: "string list"
  to_node :: bool

text \<open>
  A channel is a reference. What an operation does to its surroundings is the list of
  its effects, in program order: the lines it sends on a channel and the calls it makes
  to the operating system or to an agent (named by the endpoint the agent was created
  for). A call is listed whether it succeeds or fails; what it answers is in the
  \<open>world\<close>. The last effect is on the mutex that the local nodes share with their
  cluster: an operation that returns between a \<open>Lock\<close> and its \<open>Unlock\<close> leaves it
  locked.
\<close>

type_synonym chan = nat

datatype effect =
    Send chan line              \<comment> \<open>\<open>ch <- line\<close>\<close>
  | Exec Cmd                    \<comment> \<open>\<open>cmd.Start()\<close>\<close>
  | Kill int                    \<comment> \<open>\<open>syscall.Kill(pid, syscall.SIGTERM)\<close>\<close>
  | RemoveAll string            \<comment> \<open>\<open>os.RemoveAll(dir)\<close>\<close>
  | AgentStart string "string list"   \<comment> \<open>\<open>Agent.Start(flagSlice...)\<close>\<close>
  | AgentRestart string         \<comment> \<open>\<open>Agent.Restart()\<close>\<close>
  | AgentStop string            \<comment> \<open>\<open>Agent.Stop()\<close>\<close>
  | AgentCleanup string         \<comment> \<open>\<open>Agent.Cleanup()\<close>\<close>
  | StaysLocked                 \<comment> \<open>\<open>nd.pmu.Lock()\<close> with no \<open>nd.pmu.Unlock()\<close> before the return\<close>

section \<open>The local node (node\_web\_local.go)\<close>

record NodeWebLocal =
  pmaxProcNameLength :: nat
  colorIdx :: nat
  liveLog :: bool
  sharedStream :: chan
  ProgramPath :: string
  Flags :: Flags
  cmd :: "Cmd option"
  PID :: int
  active :: bool
  limitInterval :: duration
  lastTerminated :: time
  lastRestarted :: time

text \<open>
  \<open>for k := range m { es = k; break }\<close> leaves \<open>es\<close> empty when the map is empty, and
  otherwise gives it the key that this \<open>range\<close> yields first: any of the keys, and not
  the same from one \<open>range\<close> to the next. The number \<open>i\<close> is the choice the runtime
  makes for one \<open>range\<close>.
\<close>

definition range_first :: "nat \<Rightarrow> string list \<Rightarrow> string" where
  "range_first i ks = (if ks = [] then [] else ks ! (i mod length ks))"

text \<open>
  \<open>Endpoint\<close> parses that key and returns the host of the URL. It drops the error of
  \<open>url.Parse\<close>: when the key does not parse the URL is \<open>nil\<close>, and reading its field
  \<open>Host\<close> panics (\<open>None\<close>). \<open>url_Parse\<close> answers the host of the URL, or \<open>None\<close> for
  an error.
\<close>

definition local_Endpoint :: "(string \<Rightarrow> string option) \<Rightarrow> nat \<Rightarrow> NodeWebLocal \<Rightarrow> string option" where
  "local_Endpoint url_Parse i nd =
     (case url_Parse (range_first i (ListenClientURLs (Flags nd))) of
        None \<Rightarrow> None
      | Some host \<Rightarrow> Some host)"

definition local_StatusEndpoint :: "nat \<Rightarrow> NodeWebLocal \<Rightarrow> string" where
  "local_StatusEndpoint i nd = range_first i (ListenClientURLs (Flags nd))"

text \<open>
  Every lifecycle operation returns the error (\<open>None\<close> for \<open>nil\<close>), the node
  afterwards and its effects. It is modelled from a state in which it can lock the
  mutex; the mutex brackets the reads and writes of the fields, and every path unlocks
  it again but one: \<open>Start\<close> and \<open>Restart\<close> return with it locked when \<open>Flags.String\<close>
  fails. A panic, which the operation would recover from and report on the shared
  stream, has no source in the model; the line that the goroutine waiting for the
  process sends when the process exits comes after the operation has returned and is
  not part of its result.
\<close>

definition local_IsActive :: "NodeWebLocal \<Rightarrow> bool" where
  "local_IsActive nd = active nd"

definition shell_of :: "world \<Rightarrow> string" where
  "shell_of w = (if length (env_SHELL w) = 0 then ''sh'' else env_SHELL w)"

definition local_Start :: "world \<Rightarrow> NodeWebLocal \<Rightarrow> error option \<times> NodeWebLocal \<times> effect list" where
  "local_Start w nd =
     (if active nd then (Some (AlreadyRunning (Name (Flags nd))), nd, [])
      else
        case Flags_String w of
          Inl err \<Rightarrow> (Some err, nd, [StaysLocked])
        | Inr flagString \<Rightarrow>
            let args = [shell_of w, ''-c'', ProgramPath nd @ '' '' @ flagString];
                c = \<lparr>Args = args, to_node = liveLog nd\<rparr>;
                out = [Send (sharedStream nd) (StartLine (Name (Flags nd))), Exec c]
            in case cmd_Start w of
                 Inl err \<Rightarrow> (Some err, nd, out)
               | Inr pid \<Rightarrow> (None, nd\<lparr>cmd := Some c, PID := pid, active := True\<rparr>, out))"

definition local_Restart :: "world \<Rightarrow> NodeWebLocal \<Rightarrow> error option \<times> NodeWebLocal \<times> effect list" where
  "local_Restart w nd =
     (if active nd then (Some (AlreadyRunning (Name (Flags nd))), nd, [])
      else
        let sub = time_Sub (now1 w) (lastRestarted nd) in
        if sub < limitInterval nd
        then (Some (RestartedSameNode sub (limitInterval nd)), nd, [])
        else
          let subt = time_Sub (now2 w) (lastTerminated nd) in
          if subt < limitInterval nd
          then (Some (TerminatedNode subt (limitInterval nd)), nd, [])
          else
            let nd1 = nd\<lparr>Flags := (Flags nd)\<lparr>InitialClusterState := ''existing''\<rparr>\<rparr> in
            case Flags_String w of
              Inl err \<Rightarrow> (Some err, nd1, [StaysLocked])
            | Inr flagString \<Rightarrow>
                let args = [shell_of w, ''-c'', ProgramPath nd1 @ '' '' @ flagString];
                    c = \<lparr>Args = args, to_node = True\<rparr>;
                    out = [Send (sharedStream nd1) (RestartLine (Name (Flags nd1))), Exec c]
                in case cmd_Start w of
                     Inl err \<Rightarrow> (Some err, nd1, out)
                   | Inr pid \<Rightarrow>
                       (None,
                        nd1\<lparr>cmd := Some c, PID := pid, lastRestarted := now3 w, active := True\<rparr>,
                        out))"

definition local_Terminate :: "world \<Rightarrow> NodeWebLocal \<Rightarrow> error option \<times> NodeWebLocal \<times> effect list" where
  "local_Terminate w nd =
     (if \<not> active nd then (Some (AlreadyTerminatedOrRequested (Name (Flags nd))), nd, [])
      else
        let sub = time_Sub (now1 w) (lastTerminated nd) in
        if sub < limitInterval nd
        then (Some (TerminatedSameNode sub (limitInterval nd)), nd, [])
        else
          let subt = time_Sub (now2 w) (lastRestarted nd) in
          if subt < limitInterval nd
          then (Some (RestartedNode subt (limitInterval nd)), nd, [])
          else
            let out = [Send (sharedStream nd) (TerminateLine (Name (Flags nd)) (PID nd)),
                       Kill (PID nd)]
            in case syscall_Kill w of
                 Some err \<Rightarrow> (Some err, nd, out)
               | None \<Rightarrow> (None, nd\<lparr>lastTerminated := now3 w, active := False\<rparr>, out))"

definition local_Clean :: "world \<Rightarrow> NodeWebLocal \<Rightarrow> error option \<times> NodeWebLocal \<times> effect list" where
  "local_Clean w nd =
     (let nd1 = nd\<lparr>lastTerminated := now1 w\<rparr> in
      if active nd1 then (Some (AlreadyRunning (Name (Flags nd1))), nd1, [])
      else
        let out = [Send (sharedStream nd1) (CleanLine (Name (Flags nd1)) (DataDir (Flags nd1))),
                   RemoveAll (DataDir (Flags nd1))]
        in case os_RemoveAll w of
             Some err \<Rightarrow> (Some err, nd1, out)
           | None \<Rightarrow> (None, nd1, out))"

section \<open>The remote node\<close>

text \<open>
  The remote node's type declares a mutex of its own, its flags, the agent client and
  the \<open>active\<close> flag: it has no interval and no time stamps. The agent is outside the
  package: the model keeps the endpoint it was created for, and what its calls answer
  is in the \<open>world\<close>. Every operation unlocks the mutex before it returns.
\<close>

record NodeWebRemoteClient =
  rFlags :: Flags
  Agent :: string
  ractive :: bool

definition remote_Endpoint :: "NodeWebRemoteClient \<Rightarrow> string" where
  "remote_Endpoint nd = ExperimentalgRPCAddr (rFlags nd)"

definition remote_StatusEndpoint :: "nat \<Rightarrow> NodeWebRemoteClient \<Rightarrow> string" where
  "remote_StatusEndpoint i nd = range_first i (ListenClientURLs (rFlags nd))"

definition remote_IsActive :: "NodeWebRemoteClient \<Rightarrow> bool" where
  "remote_IsActive nd = ractive nd"

definition remote_Start :: "world \<Rightarrow> NodeWebRemoteClient \<Rightarrow> error option \<times> NodeWebRemoteClient \<times> effect list" where
  "remote_Start w nd =
     (if ractive nd then (Some (AlreadyActive (Name (rFlags nd))), nd, [])
      else
        case Flags_StringSlice w of
          Inl err \<Rightarrow> (Some err, nd, [])
        | Inr flagSlice \<Rightarrow>
            (case Agent_Start w of
               Some err \<Rightarrow> (Some err, nd, [AgentStart (Agent nd) flagSlice])
             | None \<Rightarrow> (None, nd\<lparr>ractive := True\<rparr>, [AgentStart (Agent nd) flagSlice])))"

definition remote_Restart :: "world \<Rightarrow> NodeWebRemoteClient \<Rightarrow> error option \<times> NodeWebRemoteClient \<times> effect list" where
  "remote_Restart w nd =
     (if ractive nd then (Some (AlreadyActive (Name (rFlags nd))), nd, [])
      else
        case Agent_Restart w of
          Some err \<Rightarrow> (Some err, nd, [AgentRestart (Agent nd)])
        | None \<Rightarrow> (None, nd\<lparr>ractive := True\<rparr>, [AgentRestart (Agent nd)]))"

definition remote_Terminate :: "world \<Rightarrow> NodeWebRemoteClient \<Rightarrow> error option \<times> NodeWebRemoteClient \<times> effect list" where
  "remote_Terminate w nd =
     (if \<not> ractive nd then (Some (AlreadyTerminated (Name (rFlags nd))), nd, [])
      else
        case Agent_Stop w of
          Some err \<Rightarrow> (Some err, nd, [AgentStop (Agent nd)])
        | None \<Rightarrow> (None, nd\<lparr>ractive := False\<rparr>, [AgentStop (Agent nd)]))"

definition remote_Clean :: "world \<Rightarrow> NodeWebRemoteClient \<Rightarrow> error option \<times> NodeWebRemoteClient \<times> effect list" where
  "remote_Clean w nd =
     (case Agent_Cleanup w of
        Some err \<Rightarrow> (Some err, nd, [AgentCleanup (Agent nd)])
      | None \<Rightarrow> (None, nd, [AgentCleanup (Agent nd)]))"

section \<open>The cluster (proc\_cluster.go)\<close>

subsection \<open>Nodes behind the \<open>Node\<close> interface\<close>

text \<open>
  \<open>NewCluster\<close> also builds nodes of a third type, \<open>NodeTerminal\<close>, declared in a file
  of its own that is not modelled. Its fields are those of the literal in \<open>NewCluster\<close>;
  its methods are taken as parameters (\<open>Endpoint\<close> and \<open>StatusEndpoint\<close> with the
  choice of the runtime, as for the other nodes, and \<open>term_Locks\<close> for whether they
  lock the mutex of the cluster, to which the node holds a pointer), together with the
  library functions the package calls: \<open>url.Parse\<close>, the conversion of a metrics value
  (\<open>strconv.ParseFloat\<close> followed by \<open>int\<close>), \<open>CombineFlags\<close> (which fails, or rewrites
  in place the flags it is given: it answers what the \<open>i\<close>-th of them has become) and
  \<open>client.NewAgent\<close>.
\<close>

record NodeTerminal =
  tpmaxProcNameLength :: nat
  tcolorIdx :: nat
  tProgramPath :: string
  tFlags :: Flags
  tcmd :: "Cmd option"
  tPID :: int
  tactive :: bool

datatype Node =
    TerminalNode NodeTerminal
  | LocalNode NodeWebLocal
  | RemoteNode NodeWebRemoteClient

record ext =
  url_Parse :: "string \<Rightarrow> string option"
  parse_count :: "string \<Rightarrow> int option"
  CombineFlags :: "bool \<Rightarrow> Flags list \<Rightarrow> error + (nat \<Rightarrow> Flags)"
  NewAgent :: "string \<Rightarrow> error + string"
  term_Locks :: bool
  term_Endpoint :: "nat \<Rightarrow> NodeTerminal \<Rightarrow> string option"
  term_StatusEndpoint :: "nat \<Rightarrow> NodeTerminal \<Rightarrow> string"
  term_IsActive :: "NodeTerminal \<Rightarrow> bool"
  term_Start :: "world \<Rightarrow> NodeTerminal \<Rightarrow> error option \<times> NodeTerminal \<times> effect list"
  term_Restart :: "world \<Rightarrow> NodeTerminal \<Rightarrow> error option \<times> NodeTerminal \<times> effect list"
  term_Terminate :: "world \<Rightarrow> NodeTerminal \<Rightarrow> error option \<times> NodeTerminal \<times> effect list"
  term_Clean :: "world \<Rightarrow> NodeTerminal \<Rightarrow> error option \<times> NodeTerminal \<times> effect list"

text \<open>
  Dynamic dispatch. \<open>Endpoint\<close> returns a string or panics (\<open>None\<close>); a lifecycle
  call returns the error, the node afterwards and the effects. \<open>takes_mutex\<close> says
  whether the methods of a node lock the mutex of the cluster: those of a local node
  do, through the pointer \<open>pmu\<close>, and those of a remote node lock the node's own.
\<close>

fun node_Endpoint :: "ext \<Rightarrow> nat \<Rightarrow> Node \<Rightarrow> string option" where
  "node_Endpoint x i (TerminalNode t) = term_Endpoint x i t"
| "node_Endpoint x i (LocalNode l) = local_Endpoint (url_Parse x) i l"
| "node_Endpoint x i (RemoteNode r) = Some (remote_Endpoint r)"

fun node_StatusEndpoint :: "ext \<Rightarrow> nat \<Rightarrow> Node \<Rightarrow> string" where
  "node_StatusEndpoint x i (TerminalNode t) = term_StatusEndpoint x i t"
| "node_StatusEndpoint x i (LocalNode l) = local_StatusEndpoint i l"
| "node_StatusEndpoint x i (RemoteNode r) = remote_StatusEndpoint i r"

fun takes_mutex :: "ext \<Rightarrow> Node \<Rightarrow> bool" where
  "takes_mutex x (TerminalNode t) = term_Locks x"
| "takes_mutex x (LocalNode l) = True"
| "takes_mutex x (RemoteNode r) = False"

fun node_IsActive :: "ext \<Rightarrow> Node \<Rightarrow> bool" where
  "node_IsActive x (TerminalNode t) = term_IsActive x t"
| "node_IsActive x (LocalNode l) = local_IsActive l"
| "node_IsActive x (RemoteNode r) = remote_IsActive r"

definition of_terminal :: "error option \<times> NodeTerminal \<times> effect list \<Rightarrow> error option \<times> Node \<times> effect list" where
  "of_terminal r = (case r of (e, nd, out) \<Rightarrow> (e, TerminalNode nd, out))"

definition of_local :: "error option \<times> NodeWebLocal \<times> effect list \<Rightarrow> error option \<times> Node \<times> effect list" where
  "of_local r = (case r of (e, nd, out) \<Rightarrow> (e, LocalNode nd, out))"

definition of_remote :: "error option \<times> NodeWebRemoteClient \<times> effect list \<Rightarrow> error option \<times> Node \<times> effect list" where
  "of_remote r = (case r of (e, nd, out) \<Rightarrow> (e, RemoteNode nd, out))"


fun node_Restart :: "ext \<Rightarrow> world \<Rightarrow> Node \<Rightarrow> error option \<times> Node \<times> effect list" where
  "node_Restart x w (TerminalNode t) = of_terminal (term_Restart x w t)"
| "node_Restart x w (LocalNode l) = of_local (local_Restart w l)"
| "node_Restart x w (RemoteNode r) = of_remote (remote_Restart w r)"



subsection \<open>The registry\<close>

text \<open>
  A Go map is an association list with one pair for each key: \<open>map_of\<close> reads it,
  \<open>AList.update\<close> writes it, and the order of the list is the order in which the
  runtime ranges over the map, which the program does not control. A map holds
  pointers to the nodes, so an operation on a node rewrites the node in its place.

  \<open>mu\<close> says whether the mutex is locked when no call is in progress. It is then
  locked for good, and a call that locks it never returns.

  The last four fields are not fields of the struct: they are the surroundings the
  cluster acts upon. For every channel made the model keeps its capacity and the lines
  sent on it so far; \<open>made\<close> counts the channels, and the next
  \<open>make(chan string, 5000)\<close> returns the reference \<open>made\<close>. A send on a full channel
  waits for the consumer; the model records the line when the send completes.
  \<open>calls\<close> lists the calls made so far to the operating system and to the agents.
\<close>

record defaultCluster =
  mu :: bool
  csharedStream :: chan
  idToStream :: "(string \<times> chan) list"
  nameToNode :: "(string \<times> Node) list"
  made :: nat
  capacity :: "chan \<Rightarrow> nat"
  sent :: "chan \<Rightarrow> line list"
  calls :: "effect list"

definition send :: "chan \<Rightarrow> line \<Rightarrow> defaultCluster \<Rightarrow> defaultCluster" where
  "send ch l c = c\<lparr>sent := (sent c)(ch := sent c ch @ [l])\<rparr>"

fun perform :: "effect \<Rightarrow> defaultCluster \<Rightarrow> defaultCluster" where
  "perform (Send ch l) c = send ch l c"
| "perform StaysLocked c = c\<lparr>mu := True\<rparr>"
| "perform e c = c\<lparr>calls := calls c @ [e]\<rparr>"

definition deliver :: "effect list \<Rightarrow> defaultCluster \<Rightarrow> defaultCluster" where
  "deliver out c = fold perform out c"


subsection \<open>NewCluster\<close>

type_synonym NodeType = int

definition Terminal :: NodeType where
  "Terminal = 0"

definition WebLocal :: NodeType where
  "WebLocal = 1"

definition WebRemote :: NodeType where
  "WebRemote = 2"

record op =
  op_liveLog :: bool
  op_limitInterval :: duration
  agentEndpoints :: "string list"

definition apply_opts :: "(op \<Rightarrow> op) list \<Rightarrow> op \<Rightarrow> op" where
  "apply_opts opts o1 = fold (\<lambda>opt o2. opt o2) opts o1"

definition WithLiveLog :: "op \<Rightarrow> op" where
  "WithLiveLog o1 = o1\<lparr>op_liveLog := True\<rparr>"

definition WithLimitInterval :: "duration \<Rightarrow> op \<Rightarrow> op" where
  "WithLimitInterval d o1 = o1\<lparr>op_limitInterval := d\<rparr>"

definition WithAgentEndpoints :: "string list \<Rightarrow> op \<Rightarrow> op" where
  "WithAgentEndpoints eps o1 = o1\<lparr>agentEndpoints := eps\<rparr>"

definition zero_op :: op where
  "zero_op = \<lparr>op_liveLog = False, op_limitInterval = 0, agentEndpoints = []\<rparr>"

text \<open>
  Every node holds a pointer to the one variable \<open>maxProcNameLength\<close>, so once the
  loop is over each of them reads the greatest length of a name. The literal of the
  remote node also names a field \<open>limitInterval\<close>, which the type of the remote node
  does not declare: the interval has nowhere to go.
\<close>

definition maxProcNameLength :: "Flags list \<Rightarrow> nat" where
  "maxProcNameLength fs = fold (\<lambda>f m. if length (Name f) > m then length (Name f) else m) fs 0"

fun make_nodes ::
  "ext \<Rightarrow> NodeType \<Rightarrow> string \<Rightarrow> op \<Rightarrow> chan \<Rightarrow> nat \<Rightarrow> nat \<Rightarrow> nat \<Rightarrow> Flags list \<Rightarrow>
   (string \<times> Node) list \<Rightarrow> error + (string \<times> Node) list" where
  "make_nodes x opt programPath o1 stream maxlen i colorIdx0 [] acc = Inr acc"
| "make_nodes x opt programPath o1 stream maxlen i colorIdx0 (f # fs) acc =
     (let colorIdx1 = (if colorIdx0 \<ge> 5 then 0 else colorIdx0);
          name = Name f
      in
        if opt = Terminal then
          make_nodes x opt programPath o1 stream maxlen (Suc i) (Suc colorIdx1) fs
            (AList.update name
               (TerminalNode \<lparr>tpmaxProcNameLength = maxlen, tcolorIdx = colorIdx1,
                  tProgramPath = programPath, tFlags = f, tcmd = None, tPID = 0,
                  tactive = False\<rparr>) acc)
        else if opt = WebLocal then
          make_nodes x opt programPath o1 stream maxlen (Suc i) (Suc colorIdx1) fs
            (AList.update name
               (LocalNode \<lparr>pmaxProcNameLength = maxlen, colorIdx = colorIdx1,
                  liveLog = op_liveLog o1, sharedStream = stream,
                  ProgramPath = programPath, Flags = f, cmd = None, PID = 0,
                  active = False, limitInterval = op_limitInterval o1,
                  lastTerminated = 0, lastRestarted = 0\<rparr>) acc)
        else if opt = WebRemote then
          (if length (agentEndpoints o1) = 0 then Inl NoAgentEndpoints
           else
             case NewAgent x (agentEndpoints o1 ! i) of
               Inl err \<Rightarrow> Inl err
             | Inr a \<Rightarrow>
                 make_nodes x opt programPath o1 stream maxlen (Suc i) (Suc colorIdx1) fs
                   (AList.update name
                      (RemoteNode \<lparr>rFlags = f, Agent = a, ractive = False\<rparr>) acc))
        else Inl (NotImplemented opt))"

text \<open>
  The result is the pair \<open>(Cluster, error)\<close>. In the remote case the index
  \<open>agentEndpoints[i]\<close> is in range, because the lengths have been compared before.
\<close>

definition NewCluster ::
  "ext \<Rightarrow> NodeType \<Rightarrow> string \<Rightarrow> Flags list \<Rightarrow> (op \<Rightarrow> op) list \<Rightarrow>
   defaultCluster option \<times> error option" where
  "NewCluster x opt programPath fs opts =
     (if length fs = 0 then (None, None)
      else
        let o1 = apply_opts opts zero_op in
        if length (agentEndpoints o1) > 0 \<and> opt = WebRemote
           \<and> length (agentEndpoints o1) \<noteq> length fs
        then (None, Some (AgentEndpointsSize (length (agentEndpoints o1)) (length fs)))
        else
          case CombineFlags x (opt = WebRemote) fs of
            Inl err \<Rightarrow> (None, Some err)
          | Inr combined \<Rightarrow>
              let fs1 = map combined [0..<length fs] in
              (case make_nodes x opt programPath o1 0 (maxProcNameLength fs1) 0 0 fs1 [] of
                 Inl err \<Rightarrow> (None, Some err)
               | Inr nodes \<Rightarrow>
                   (Some \<lparr>mu = False, csharedStream = 0, idToStream = [], nameToNode = nodes,
                      made = 1, capacity = (\<lambda>_. 0)(0 := 5000), sent = (\<lambda>_. []),
                      calls = []\<rparr>,
                    None)))"

subsection \<open>Streams and Write\<close>





subsection \<open>Lifecycle by name\<close>






subsection \<open>Revive\<close>




text \<open>
  What \<open>Restart\<close> makes of one entry of the registry in the world \<open>ws\<close> gives it, and
  the effects it has.
\<close>

definition restarted :: "ext \<Rightarrow> (string \<Rightarrow> world) \<Rightarrow> string \<times> Node \<Rightarrow> string \<times> Node" where
  "restarted x ws p = (fst p, fst (snd (node_Restart x (ws (fst p)) (snd p))))"

definition restart_effects :: "ext \<Rightarrow> (string \<Rightarrow> world) \<Rightarrow> string \<times> Node \<Rightarrow> effect list" where
  "restart_effects x ws p = snd (snd (node_Restart x (ws (fst p)) (snd p)))"

definition restart_error :: "ext \<Rightarrow> (string \<Rightarrow> world) \<Rightarrow> string \<times> Node \<Rightarrow> error option" where
  "restart_error x ws p = fst (node_Restart x (ws (fst p)) (snd p))"

subsection \<open>Shutdown\<close>





subsection \<open>Endpoints\<close>

text \<open>
  \<open>Endpoints\<close> calls \<open>nd.Endpoint()\<close> up to three times for a node: in the test, for
  the list when the test holds, and for the map. Each call makes its own \<open>range\<close> over
  the listen URLs: \<open>rt n k\<close> is the choice of the runtime in the \<open>k\<close>-th \<open>range\<close> that the
  operation makes for the node \<open>n\<close>, counted from 0 (\<open>Status\<close> makes a fourth in
  \<open>StatusEndpoint\<close>). A call that panics ends the operation. \<open>IsActive\<close>, called when
  the endpoint is not empty, locks the mutex of the node; \<open>locked\<close> says whether the
  mutex of the cluster is locked.
\<close>

type_synonym ranges = "string \<Rightarrow> nat \<Rightarrow> nat"

fun endpoints_loop ::
  "ext \<Rightarrow> ranges \<Rightarrow> bool \<Rightarrow> (string \<times> Node) list \<Rightarrow> string list \<Rightarrow> (string \<times> string) list \<Rightarrow>
   (string list \<times> (string \<times> string) list) outcome" where
  "endpoints_loop x rt locked [] endpoints nameToGRPCEndpoint =
     Returns (endpoints, nameToGRPCEndpoint)"
| "endpoints_loop x rt locked ((n, nd) # rest) endpoints nameToGRPCEndpoint =
     (case node_Endpoint x (rt n 0) nd of
        None \<Rightarrow> Panics
      | Some e0 \<Rightarrow>
          if e0 \<noteq> [] \<and> locked \<and> takes_mutex x nd then Blocks
          else if e0 \<noteq> [] \<and> node_IsActive x nd
          then
            (case node_Endpoint x (rt n 1) nd of
               None \<Rightarrow> Panics
             | Some e1 \<Rightarrow>
                 (case node_Endpoint x (rt n 2) nd of
                    None \<Rightarrow> Panics
                  | Some e2 \<Rightarrow>
                      endpoints_loop x rt locked rest (endpoints @ [e1])
                        (AList.update n e2 nameToGRPCEndpoint)))
          else
            (case node_Endpoint x (rt n 2) nd of
               None \<Rightarrow> Panics
             | Some e2 \<Rightarrow>
                 endpoints_loop x rt locked rest endpoints
                   (AList.update n e2 nameToGRPCEndpoint)))"

text \<open>
  \<open>sort.Strings\<close> puts the strings in increasing order, comparing them byte by byte;
  that is the order of \<open>char list\<close>.
\<close>

definition Endpoints ::
  "ext \<Rightarrow> ranges \<Rightarrow> defaultCluster \<Rightarrow> (string list \<times> (string \<times> string) list) outcome" where
  "Endpoints x rt c =
     (case endpoints_loop x rt (mu c) (nameToNode c) [] [] of
        Returns (endpoints, nameToGRPCEndpoint) \<Rightarrow> Returns (sort endpoints, nameToGRPCEndpoint)
      | Blocks \<Rightarrow> Blocks
      | Panics \<Rightarrow> Panics)"

text \<open>
  The three calls for one entry of the registry: whether each of them returns, whether
  the test holds, and what the call for the list returns.
\<close>

definition answers :: "ext \<Rightarrow> ranges \<Rightarrow> string \<times> Node \<Rightarrow> bool" where
  "answers x rt p =
     (node_Endpoint x (rt (fst p) 0) (snd p) \<noteq> None
      \<and> node_Endpoint x (rt (fst p) 1) (snd p) \<noteq> None
      \<and> node_Endpoint x (rt (fst p) 2) (snd p) \<noteq> None)"

definition tested :: "ext \<Rightarrow> ranges \<Rightarrow> string \<times> Node \<Rightarrow> bool" where
  "tested x rt p =
     (case node_Endpoint x (rt (fst p) 0) (snd p) of
        None \<Rightarrow> False
      | Some e0 \<Rightarrow> e0 \<noteq> [] \<and> node_IsActive x (snd p))"

definition listed :: "ext \<Rightarrow> ranges \<Rightarrow> string \<times> Node \<Rightarrow> string option" where
  "listed x rt p = node_Endpoint x (rt (fst p) 1) (snd p)"

definition mapped :: "ext \<Rightarrow> ranges \<Rightarrow> string \<times> Node \<Rightarrow> string option" where
  "mapped x rt p = node_Endpoint x (rt (fst p) 2) (snd p)"

text \<open>
  A node all of whose calls of \<open>Endpoint\<close> return the same: a remote node, and a local
  node with at most one listen URL.
\<close>

fun settled :: "Node \<Rightarrow> bool" where
  "settled (TerminalNode t) = False"
| "settled (LocalNode l) = (length (ListenClientURLs (Flags l)) \<le> 1)"
| "settled (RemoteNode r) = True"

subsection \<open>Status\<close>

record ServerStatus =
  stName :: string
  stID :: string
  stEndpoint :: string
  stState :: string
  stNumberOfKeys :: int
  stHash :: int

definition emptyStat :: ServerStatus where
  "emptyStat = \<lparr>stName = [], stID = ''unknown'', stEndpoint = ''unknown'',
     stState = ''unreachable'', stNumberOfKeys = 0, stHash = 0\<rparr>"

text \<open>
  \<open>stat := emptyStat; stat.Name = name; stat.Endpoint = endpoint\<close>: the status a probe
  starts from, and the one \<open>Status\<close> gives a node it has no result for.
\<close>

definition unreachable :: "string \<Rightarrow> string \<Rightarrow> ServerStatus" where
  "unreachable name endpoint = emptyStat\<lparr>stName := name, stEndpoint := endpoint\<rparr>"

text \<open>
  A probe makes three remote calls, each in a goroutine that the probe waits for in a
  \<open>select\<close> with three arms: the timer fires, the call fails, or the call is done.
\<close>

datatype 'a step = Timeout | Failed error | Done 'a

record member =
  mName :: string
  mID :: nat
  IsLeader :: bool

record probe =
  grpc_Dial :: "error option"
  MemberList :: "member list step"
  HashResp :: "nat step"
  Metrics :: "string list step"

text \<open>\<open>fmt.Sprintf("%x", mb.ID)\<close>: the number in base 16, lower case.\<close>

definition hex_digit :: "nat \<Rightarrow> char" where
  "hex_digit d = ''0123456789abcdef'' ! d"

function hex :: "nat \<Rightarrow> string" where
  "hex n = (if n < 16 then [hex_digit n] else hex (n div 16) @ [hex_digit (n mod 16)])"
  by pat_completeness auto
termination
  by (relation "measure id") auto

fun set_member :: "string \<Rightarrow> member list \<Rightarrow> ServerStatus \<Rightarrow> ServerStatus" where
  "set_member name [] stat = stat"
| "set_member name (mb # mbs) stat =
     (if mName mb = name
      then stat\<lparr>stID := hex (mID mb),
                stState := (if IsLeader mb then ''Leader'' else ''Follower'')\<rparr>
      else set_member name mbs stat)"

text \<open>\<open>strings.SplitN(txt, " ", 2)\<close>: cut at the first space, if there is one.\<close>

definition SplitN2 :: "string \<Rightarrow> string list" where
  "SplitN2 txt =
     (if CHR '' '' \<in> set txt
      then [takeWhile (\<lambda>ch. ch \<noteq> CHR '' '') txt, tl (dropWhile (\<lambda>ch. ch \<noteq> CHR '' '') txt)]
      else [txt])"

definition HasPrefix :: "string \<Rightarrow> string \<Rightarrow> bool" where
  "HasPrefix s pre = (take (length pre) s = pre)"

text \<open>
  The scan of the metrics page: \<open>Some v\<close> when the line of
  \<open>etcd_storage_keys_total\<close> is found, with \<open>v\<close> the value it carries, or 0 when there
  is none or it does not parse.
\<close>

fun scan_keys :: "(string \<Rightarrow> int option) \<Rightarrow> string list \<Rightarrow> int option" where
  "scan_keys parse [] = None"
| "scan_keys parse (txt # rest) =
     (if HasPrefix txt ''#'' then scan_keys parse rest
      else
        let ts = SplitN2 txt;
            fv = (if length ts = 2
                  then (case parse (ts ! 1) of Some v \<Rightarrow> v | None \<Rightarrow> 0)
                  else 0)
        in if ts ! 0 = ''etcd_storage_keys_total'' then Some fv
           else scan_keys parse rest)"

text \<open>
  \<open>getStatus\<close> sends exactly one value: \<open>Inl\<close> on the error channel or \<open>Inr\<close> on the
  channel of results.
\<close>

definition getStatus :: "ext \<Rightarrow> string \<Rightarrow> string \<Rightarrow> string \<Rightarrow> probe \<Rightarrow> error + ServerStatus" where
  "getStatus x name grpcEndpoint v2Endpoint p =
     (case grpc_Dial p of
        Some err \<Rightarrow> Inl err
      | None \<Rightarrow>
          let stat = unreachable name grpcEndpoint in
          case MemberList p of
            Timeout \<Rightarrow> Inl TimedOut
          | Failed err \<Rightarrow> Inl err
          | Done mbs \<Rightarrow>
              let stat1 = set_member name mbs stat in
              (case HashResp p of
                 Timeout \<Rightarrow> Inl TimedOut
               | Failed err \<Rightarrow> Inl err
               | Done h \<Rightarrow>
                   let stat2 = stat1\<lparr>stHash := int h\<rparr> in
                   (case Metrics p of
                      Timeout \<Rightarrow> Inl TimedOut
                    | Failed err \<Rightarrow> Inl err
                    | Done body \<Rightarrow>
                        (case scan_keys (parse_count x) body of
                           Some v \<Rightarrow> Inr (stat2\<lparr>stNumberOfKeys := v\<rparr>)
                         | None \<Rightarrow> Inr stat2))))"

text \<open>
  The receiving loop of \<open>Status\<close>: it takes as many values as there are probes. With
  no value left to take, the receive never returns, and neither does \<open>Status\<close>
  (\<open>None\<close>).
\<close>

fun receive ::
  "nat \<Rightarrow> (error + ServerStatus) list \<Rightarrow> (string \<times> ServerStatus) list \<Rightarrow> error option \<Rightarrow>
   ((string \<times> ServerStatus) list \<times> error option) option" where
  "receive 0 msgs nameToStatus err = Some (nameToStatus, err)"
| "receive (Suc k) [] nameToStatus err = None"
| "receive (Suc k) (Inr s # msgs) nameToStatus err =
     receive k msgs (AList.update (stName s) s nameToStatus) err"
| "receive (Suc k) (Inl e # msgs) nameToStatus err = receive k msgs nameToStatus (Some e)"

fun fill_unreachable ::
  "(string \<times> string) list \<Rightarrow> (string \<times> ServerStatus) list \<Rightarrow> (string \<times> ServerStatus) list" where
  "fill_unreachable [] nameToStatus = nameToStatus"
| "fill_unreachable ((name, endpoint) # rest) nameToStatus =
     fill_unreachable rest
       (case map_of nameToStatus name of
          Some s \<Rightarrow> nameToStatus
        | None \<Rightarrow>
            AList.update name (unreachable name endpoint) nameToStatus)"

definition v2_endpoints :: "ext \<Rightarrow> ranges \<Rightarrow> (string \<times> Node) list \<Rightarrow> (string \<times> string) list" where
  "v2_endpoints x rt nodes =
     fold (\<lambda>(name, nd) m. AList.update name (node_StatusEndpoint x (rt name 3) nd) m) nodes []"

definition lookup_string :: "(string \<times> string) list \<Rightarrow> string \<Rightarrow> string" where
  "lookup_string m k = (case map_of m k of Some v \<Rightarrow> v | None \<Rightarrow> [])"

text \<open>
  \<open>ps\<close> gives each probe its outcome, and \<open>arrival\<close> names the probes in the order in
  which the values they send are received; a name for which no probe was started sends
  nothing.
\<close>

definition probe_message ::
  "ext \<Rightarrow> (string \<Rightarrow> probe) \<Rightarrow> (string \<times> string) list \<Rightarrow> (string \<times> string) list \<Rightarrow> string \<Rightarrow>
   (error + ServerStatus) list" where
  "probe_message x ps nameToEndpoint nameToV2Endpoint name =
     (case map_of nameToEndpoint name of
        None \<Rightarrow> []
      | Some grpcEndpoint \<Rightarrow>
          [getStatus x name grpcEndpoint (lookup_string nameToV2Endpoint name) (ps name)])"

text \<open>
  \<open>Status\<close> begins with a call of \<open>Endpoints\<close>, of which it keeps the map; if that call
  panics or never returns, so does \<open>Status\<close>.
\<close>

definition Status ::
  "ext \<Rightarrow> ranges \<Rightarrow> (string \<Rightarrow> probe) \<Rightarrow> string list \<Rightarrow> defaultCluster \<Rightarrow>
   ((string \<times> ServerStatus) list \<times> error option) outcome" where
  "Status x rt ps arrival c =
     (case Endpoints x rt c of
        Panics \<Rightarrow> Panics
      | Blocks \<Rightarrow> Blocks
      | Returns (endpoints, nameToEndpoint) \<Rightarrow>
          let nameToV2Endpoint = v2_endpoints x rt (nameToNode c);
              msgs = concat (map (probe_message x ps nameToEndpoint nameToV2Endpoint) arrival)
          in case receive (length nameToEndpoint) msgs [] None of
               None \<Rightarrow> Blocks
             | Some (nameToStatus, err) \<Rightarrow>
                 Returns (fill_unreachable nameToEndpoint nameToStatus, err))"

text \<open>
  The value that the probe of one entry of the registry sends, given the map \<open>E\<close> that
  \<open>Endpoints\<close> returned, and the last error among the values received (\<open>err\<close> when there
  is none).
\<close>

definition probe_result ::
  "ext \<Rightarrow> ranges \<Rightarrow> (string \<Rightarrow> probe) \<Rightarrow> (string \<times> string) list \<Rightarrow> string \<times> Node \<Rightarrow>
   error + ServerStatus" where
  "probe_result x rt ps E p =
     getStatus x (fst p) (lookup_string E (fst p))
       (node_StatusEndpoint x (rt (fst p) 3) (snd p)) (ps (fst p))"

fun last_error :: "(error + ServerStatus) list \<Rightarrow> error option \<Rightarrow> error option" where
  "last_error [] err = err"
| "last_error (Inl e # msgs) err = last_error msgs (Some e)"
| "last_error (Inr s # msgs) err = last_error msgs err"

text \<open>
  What receiving one value does to the map of results, and the value, if any, that
  the probe of a name sends.
\<close>

fun record_status ::
  "error + ServerStatus \<Rightarrow> (string \<times> ServerStatus) list \<Rightarrow> (string \<times> ServerStatus) list" where
  "record_status (Inr s) m = AList.update (stName s) s m"
| "record_status (Inl e) m = m"

definition sent_by ::
  "ext \<Rightarrow> ranges \<Rightarrow> (string \<Rightarrow> probe) \<Rightarrow> (string \<times> string) list \<Rightarrow> defaultCluster \<Rightarrow> string \<Rightarrow>
   (error + ServerStatus) list" where
  "sent_by x rt ps E c name =
     (case map_of (nameToNode c) name of
        None \<Rightarrow> []
      | Some nd \<Rightarrow> [probe_result x rt ps E (name, nd)])"

section \<open>Sequences of calls\<close>






text \<open>
  Every channel the cluster refers to is one that has been made; and the channels of
  the identifiers are dedicated: no two identifiers have the same channel, and none
  has the shared stream.
\<close>

definition chans_made :: "defaultCluster \<Rightarrow> bool" where
  "chans_made c =
     (csharedStream c < made c \<and> list_all (\<lambda>p. snd p < made c) (idToStream c))"

definition dedicated :: "defaultCluster \<Rightarrow> bool" where
  "dedicated c =
     (chans_made c \<and> distinct (map snd (idToStream c))
      \<and> csharedStream c \<notin> snd ` set (idToStream c))"

section \<open>Example values\<close>

definition flags_a :: Flags where
  "flags_a = \<lparr>Name = ''a'', DataDir = ''a.etcd'', InitialClusterState = ''new'',
     ListenClientURLs = [''http://localhost:2379''],
     ExperimentalgRPCAddr = ''localhost:2378''\<rparr>"

definition flags_b :: Flags where
  "flags_b = \<lparr>Name = ''b'', DataDir = ''b.etcd'', InitialClusterState = ''new'',
     ListenClientURLs = [''http://localhost:2479''],
     ExperimentalgRPCAddr = ''localhost:1378''\<rparr>"

text \<open>A running local node with a cool-down of 100 ms, never restarted or terminated.\<close>

definition local_a :: NodeWebLocal where
  "local_a = \<lparr>pmaxProcNameLength = 1, colorIdx = 0, liveLog = False, sharedStream = 0,
     ProgramPath = ''etcd'', Flags = flags_a,
     cmd = Some \<lparr>Args = [''sh'', ''-c'', ''etcd --name a''], to_node = False\<rparr>,
     PID = 4242, active = True, limitInterval = 100000000,
     lastTerminated = 0, lastRestarted = 0\<rparr>"

text \<open>Two remote nodes: the first is running, the second is not.\<close>

definition remote_a :: NodeWebRemoteClient where
  "remote_a = \<lparr>rFlags = flags_a, Agent = ''10.0.0.1:9027'', ractive = True\<rparr>"

definition remote_b :: NodeWebRemoteClient where
  "remote_b = \<lparr>rFlags = flags_b, Agent = ''10.0.0.2:9027'', ractive = False\<rparr>"

text \<open>A world in which every outside call succeeds and the clock stands still.\<close>

definition world_ok :: world where
  "world_ok = \<lparr>now1 = 63600000000000000000, now2 = 63600000000000000000,
     now3 = 63600000000000000000,
     env_SHELL = ''/bin/bash'', Flags_String = Inr ''--name a'',
     Flags_StringSlice = Inr [''--name'', ''a''],
     cmd_Start = Inr 4243, syscall_Kill = None, os_RemoveAll = None,
     Agent_Start = None, Agent_Restart = None, Agent_Stop = None, Agent_Cleanup = None\<rparr>"

text \<open>The same world, 50 ms and 150 ms later.\<close>

definition world_50ms :: world where
  "world_50ms = world_ok\<lparr>now1 := 63600000000050000000, now2 := 63600000000050000000,
     now3 := 63600000000050000000\<rparr>"


text \<open>A world in which every call to the agent and to the operating system fails.\<close>

definition world_down :: world where
  "world_down = world_ok\<lparr>Agent_Start := Some (External ''agent down''),
     Agent_Restart := Some (External ''agent down''),
     Agent_Stop := Some (External ''agent down''),
     Agent_Cleanup := Some (External ''agent down''),
     syscall_Kill := Some (External ''no such process''),
     os_RemoveAll := Some (External ''permission denied'')\<rparr>"



text \<open>A runtime that always yields the first key of the list.\<close>

definition rt0 :: ranges where
  "rt0 = (\<lambda>n k. 0)"

text \<open>A cluster of the two remote nodes: \<open>a\<close> is running, \<open>b\<close> is not.\<close>

definition cluster_ab :: defaultCluster where
  "cluster_ab = \<lparr>mu = False, csharedStream = 0, idToStream = [],
     nameToNode = [(''a'', RemoteNode remote_a), (''b'', RemoteNode remote_b)],
     made = 1, capacity = (\<lambda>_. 0)(0 := 5000), sent = (\<lambda>_. []), calls = []\<rparr>"

text \<open>The same cluster with both nodes stopped.\<close>

definition cluster_down :: defaultCluster where
  "cluster_down = cluster_ab\<lparr>nameToNode :=
     [(''a'', RemoteNode (remote_a\<lparr>ractive := False\<rparr>)), (''b'', RemoteNode remote_b)]\<rparr>"

text \<open>A running remote node whose flags carry no gRPC address, alone in a cluster.\<close>

definition remote_blank :: NodeWebRemoteClient where
  "remote_blank = \<lparr>rFlags = flags_a\<lparr>ExperimentalgRPCAddr := []\<rparr>, Agent = ''10.0.0.1:9027'',
     ractive = True\<rparr>"

definition cluster_blank :: defaultCluster where
  "cluster_blank = cluster_ab\<lparr>nameToNode := [(''a'', RemoteNode remote_blank)]\<rparr>"

text \<open>
  Clusters of one local node: the node \<open>local_a\<close>; the same node stopped; the node
  with a listen URL that has no scheme, which \<open>url.Parse\<close> rejects; and the node with
  two listen URLs.
\<close>

definition cluster_local :: defaultCluster where
  "cluster_local = cluster_ab\<lparr>nameToNode := [(''a'', LocalNode local_a)]\<rparr>"


definition cluster_noscheme :: defaultCluster where
  "cluster_noscheme = cluster_ab\<lparr>nameToNode :=
     [(''a'', LocalNode (local_a\<lparr>Flags := flags_a\<lparr>ListenClientURLs := ['':2379'']\<rparr>\<rparr>))]\<rparr>"

definition cluster_two_urls :: defaultCluster where
  "cluster_two_urls = cluster_ab\<lparr>nameToNode :=
     [(''a'', LocalNode (local_a\<lparr>Flags := flags_a\<lparr>ListenClientURLs :=
        [''http://localhost:2379'', ''http://10.0.0.5:2379'']\<rparr>\<rparr>))]\<rparr>"

text \<open>A runtime whose \<open>k\<close>-th range begins at the \<open>k\<close>-th key, counted round.\<close>

definition rt_moving :: ranges where
  "rt_moving = (\<lambda>n k. k)"

text \<open>
  A probe that succeeds on a node that leads the cluster, and one whose connection is
  refused.
\<close>

definition probe_up :: probe where
  "probe_up = \<lparr>grpc_Dial = None,
     MemberList = Done [\<lparr>mName = ''a'', mID = 255, IsLeader = True\<rparr>],
     HashResp = Done 7,
     Metrics = Done [''# keys'', ''etcd_storage_keys_total 3'']\<rparr>"

definition probe_refused :: probe where
  "probe_refused = probe_up\<lparr>grpc_Dial := Some (External ''connection refused'')\<rparr>"

section \<open>Properties of the nodes\<close>

subsection \<open>The cool-down\<close>

text \<open>
  \<open>Time.Sub\<close> is the difference of the two instants whenever the duration it is
  compared with lies inside the 64-bit range.
\<close>

lemma time_Sub_less:
  "minDuration < d \<Longrightarrow> d \<le> maxDuration \<Longrightarrow> (time_Sub t u < d) = (t - u < d)"
  by (auto simp: time_Sub_def Let_def)

lemma local_Restart_too_soon:
  assumes "\<not> active nd"
    and "time_Sub (now1 w) (lastRestarted nd) < limitInterval nd
         \<or> time_Sub (now2 w) (lastTerminated nd) < limitInterval nd"
  shows "\<exists>e. is_TooSoon e \<and> local_Restart w nd = (Some e, nd, [])"
  using assms by (auto simp: local_Restart_def Let_def)

lemma local_Terminate_too_soon:
  assumes "active nd"
    and "time_Sub (now1 w) (lastTerminated nd) < limitInterval nd
         \<or> time_Sub (now2 w) (lastRestarted nd) < limitInterval nd"
  shows "\<exists>e. is_TooSoon e \<and> local_Terminate w nd = (Some e, nd, [])"
  using assms by (auto simp: local_Terminate_def Let_def)

lemma local_Restart_passes:
  assumes "\<not> active nd"
    and "limitInterval nd \<le> time_Sub (now1 w) (lastRestarted nd)"
    and "limitInterval nd \<le> time_Sub (now2 w) (lastTerminated nd)"
    and "Flags_String w = Inr s" and "cmd_Start w = Inr pid"
  shows "fst (local_Restart w nd) = None \<and> active (fst (snd (local_Restart w nd)))"
  using assms by (simp add: local_Restart_def Let_def)

lemma local_Terminate_passes:
  assumes "active nd"
    and "limitInterval nd \<le> time_Sub (now1 w) (lastTerminated nd)"
    and "limitInterval nd \<le> time_Sub (now2 w) (lastRestarted nd)"
    and "syscall_Kill w = None"
  shows "fst (local_Terminate w nd) = None \<and> \<not> active (fst (snd (local_Terminate w nd)))"
  using assms by (simp add: local_Terminate_def Let_def)




subsection \<open>Preconditions\<close>

lemma local_Clean_while_active:
  "active nd \<Longrightarrow>
     local_Clean w nd = (Some (AlreadyRunning (Name (Flags nd))), nd\<lparr>lastTerminated := now1 w\<rparr>, [])"
  by (simp add: local_Clean_def Let_def)

lemma duplicate_policy:
  "(active l \<longrightarrow> (\<exists>e. is_AlreadyActive e \<and> fst (local_Start w l) = Some e)
                \<and> (\<exists>e. is_AlreadyActive e \<and> fst (local_Restart w l) = Some e))
   \<and> (ractive r \<longrightarrow> (\<exists>e. is_AlreadyActive e \<and> fst (remote_Start w r) = Some e)
                \<and> (\<exists>e. is_AlreadyActive e \<and> fst (remote_Restart w r) = Some e))
   \<and> (\<not> active l \<longrightarrow> (\<exists>e. is_NotActive e \<and> fst (local_Terminate w l) = Some e))
   \<and> (\<not> ractive r \<longrightarrow> (\<exists>e. is_NotActive e \<and> fst (remote_Terminate w r) = Some e))"
  by (simp add: local_Start_def local_Restart_def local_Terminate_def
       remote_Start_def remote_Restart_def remote_Terminate_def)

text \<open>
  C3. \<open>Clean\<close> on an active node fails with StillActive and does not remove the data
  directory, for both kinds of node. The remote node does not do so: \<open>Clean\<close> on the
  running node \<open>remote_a\<close> calls the agent's \<open>Cleanup\<close> and returns no error.
\<close>

theorem remote_Clean_while_active:
  "ractive remote_a
   \<and> remote_Clean world_ok remote_a = (None, remote_a, [AgentCleanup ''10.0.0.1:9027''])"
  by (simp add: remote_Clean_def remote_a_def world_ok_def)

subsection \<open>Time stamps\<close>

text \<open>
  What every operation of the local node does to the two time stamps. \<open>Start\<close> never
  changes one. \<open>Restart\<close> and \<open>Terminate\<close> leave both as they were on every error
  return, and on success set only \<open>lastRestarted\<close>, respectively \<open>lastTerminated\<close>, to
  the time read after the launch, respectively the signal. \<open>Clean\<close> never changes
  \<open>lastRestarted\<close>; it writes \<open>lastTerminated\<close> in its first statement, before it has
  tested whether the node is active.
\<close>

lemma timestamps_frame:
  "(local_Start w nd = (e, nd', out) \<longrightarrow>
      lastRestarted nd' = lastRestarted nd \<and> lastTerminated nd' = lastTerminated nd)
   \<and> (local_Restart w nd = (Some err, nd', out) \<longrightarrow>
      lastRestarted nd' = lastRestarted nd \<and> lastTerminated nd' = lastTerminated nd)
   \<and> (local_Restart w nd = (None, nd', out) \<longrightarrow>
      lastRestarted nd' = now3 w \<and> lastTerminated nd' = lastTerminated nd)
   \<and> (local_Terminate w nd = (Some err, nd', out) \<longrightarrow>
      lastRestarted nd' = lastRestarted nd \<and> lastTerminated nd' = lastTerminated nd)
   \<and> (local_Terminate w nd = (None, nd', out) \<longrightarrow>
      lastRestarted nd' = lastRestarted nd \<and> lastTerminated nd' = now3 w)
   \<and> (local_Clean w nd = (e, nd', out) \<longrightarrow>
      lastRestarted nd' = lastRestarted nd \<and> lastTerminated nd' = now1 w)"
  by (auto simp: local_Start_def local_Restart_def local_Terminate_def local_Clean_def Let_def
           split: if_splits sum.splits option.splits)

text \<open>
  C4. The time stamps \<open>lastRestarted\<close> and \<open>lastTerminated\<close> change only when an
  operation succeeds, so that after an operation that returns an error both are what
  they were, and the next cool-down is measured from the last success. \<open>Clean\<close> breaks
  this. The node \<open>local_a\<close> is running and has never been terminated: a \<open>Terminate\<close>
  50 ms from now succeeds. But let \<open>Clean\<close> be called now: it fails, because the node
  is running, and has moved \<open>lastTerminated\<close> from the zero time to the time of the
  call; the same \<open>Terminate\<close> 50 ms later is now refused, 50 ms after a termination
  that never took place.
\<close>

theorem Clean_error_moves_lastTerminated:
  "local_Clean world_ok local_a
     = (Some (AlreadyRunning ''a''), local_a\<lparr>lastTerminated := 63600000000000000000\<rparr>, [])
   \<and> lastTerminated local_a = 0
   \<and> fst (local_Terminate world_50ms local_a) = None
   \<and> local_Terminate world_50ms (fst (snd (local_Clean world_ok local_a)))
       = (Some (TerminatedSameNode 50000000 100000000),
          local_a\<lparr>lastTerminated := 63600000000000000000\<rparr>, [])"
  by (simp add: local_Clean_def local_Terminate_def local_a_def world_ok_def world_50ms_def
       flags_a_def time_Sub_def Let_def maxDuration_def minDuration_def)

subsection \<open>A second Start\<close>

text \<open>
  C8. \<open>Start\<close> on a node that is already active fails with AlreadyActive, does nothing
  and leaves the node exactly as it was, for both kinds of node.
\<close>

theorem Start_while_active:
  "(active l \<longrightarrow> local_Start w l = (Some (AlreadyRunning (Name (Flags l))), l, []))
   \<and> (ractive r \<longrightarrow> remote_Start w r = (Some (AlreadyActive (Name (rFlags r))), r, []))
   \<and> is_AlreadyActive (AlreadyRunning (Name (Flags l)))
   \<and> is_AlreadyActive (AlreadyActive (Name (rFlags r)))"
  by (simp add: local_Start_def remote_Start_def)

theorem Start_while_active_witness:
  "active local_a \<and> ractive remote_a
   \<and> local_Start world_ok local_a = (Some (AlreadyRunning ''a''), local_a, [])
   \<and> remote_Start world_ok remote_a = (Some (AlreadyActive ''a''), remote_a, [])"
  using Start_while_active [of local_a world_ok remote_a]
  by (simp add: local_a_def remote_a_def flags_a_def)

section \<open>Properties of the cluster\<close>

subsection \<open>Construction\<close>

text \<open>
  C10. \<open>NewCluster\<close> with an empty list of flags returns no cluster and no error,
  whatever the node type, the options, \<open>CombineFlags\<close> and \<open>NewAgent\<close> are: nothing is
  validated and nothing is made.
\<close>

theorem NewCluster_no_flags:
  "NewCluster x opt programPath [] opts = (None, None)"
  by (simp add: NewCluster_def)

text \<open>
  A cluster that \<open>NewCluster\<close> returns has one entry for each name, its mutex is
  unlocked, and it refers only to the channel it has made; it comes with no error.
\<close>

lemma make_nodes_distinct:
  "make_nodes x opt programPath o1 stream maxlen i colorIdx0 fs acc = Inr nodes \<Longrightarrow>
     distinct (map fst acc) \<Longrightarrow> distinct (map fst nodes)"
proof (induction fs arbitrary: i colorIdx0 acc)
  case Nil
  then show ?case by simp
next
  case (Cons f fs)
  then show ?case
    by (auto simp: Let_def distinct_update split: if_splits sum.splits)
qed

lemma NewCluster_well_formed:
  assumes "NewCluster x opt programPath fs opts = (Some c, e)"
  shows "distinct (map fst (nameToNode c)) \<and> dedicated c \<and> \<not> mu c \<and> e = None"
  using assms
  by (auto simp: NewCluster_def Let_def dedicated_def chans_made_def make_nodes_distinct
           split: if_splits sum.splits)

subsection \<open>Streams\<close>










text \<open>
  Nothing but \<open>Stream\<close> touches the registry of channels: the effects of the nodes do
  not.
\<close>

lemma idToStream_perform [simp]: "idToStream (perform e c) = idToStream c"
  by (cases e) (simp_all add: send_def)

lemma idToStream_deliver [simp]: "idToStream (deliver out c) = idToStream c"
  unfolding deliver_def by (induction out arbitrary: c) simp_all

lemma made_perform [simp]: "made (perform e c) = made c"
  by (cases e) (simp_all add: send_def)

lemma made_deliver [simp]: "made (deliver out c) = made c"
  unfolding deliver_def by (induction out arbitrary: c) simp_all

lemma csharedStream_perform [simp]: "csharedStream (perform e c) = csharedStream c"
  by (cases e) (simp_all add: send_def)

lemma csharedStream_deliver [simp]: "csharedStream (deliver out c) = csharedStream c"
  unfolding deliver_def by (induction out arbitrary: c) simp_all

lemma nameToNode_perform [simp]: "nameToNode (perform e c) = nameToNode c"
  by (cases e) (simp_all add: send_def)

lemma nameToNode_deliver [simp]: "nameToNode (deliver out c) = nameToNode c"
  unfolding deliver_def by (induction out arbitrary: c) simp_all

lemma dedicated_cong:
  "idToStream c1 = idToStream c \<Longrightarrow> made c1 = made c \<Longrightarrow> csharedStream c1 = csharedStream c \<Longrightarrow>
     dedicated c1 = dedicated c"
  by (simp add: dedicated_def chans_made_def)

lemma dedicated_deliver [simp]:
  "dedicated (deliver out (c\<lparr>nameToNode := nodes\<rparr>)) = dedicated c"
  by (rule dedicated_cong) simp_all










end
